theory Spec2Isabelle
  imports Main "HOL-Library.AList"
begin

section \<open>The route resolution engine of gapp\<close>

text \<open>
  Two matchers are embedded here from their sources: the client-side \<open>Router\<close> class
  (TypeScript: a trie of path segments with a metadata cache and a URL builder) and the
  server-side functions of \<open>server/preload.go\<close> (Go: \<open>MatchRoute\<close>, \<open>MatchPattern\<close>,
  \<open>SplitPath\<close>, \<open>SubstituteParams\<close>, \<open>HasUnsubstitutedParam\<close>).

  Conventions of the embedding.
  \<^item> Strings of both languages are \<open>string\<close>; only the ASCII characters \<open>/\<close>, \<open>:\<close> and
    \<open>?\<close> are ever inspected by the code.
  \<^item> A thrown JavaScript \<open>Error\<close> is a value of the datatype \<open>error\<close>, returned as \<open>Inl\<close>.
  \<^item> A \<open>Route\<close> object is compared by reference in the source (\<open>!==\<close>, \<open>Set.has\<close>); the
    record carries the object's identity in the field \<open>ref\<close>, and those comparisons
    compare \<open>ref\<close>.
  \<^item> The objects used as dictionaries (\<open>static\<close>, \<open>params\<close>) are modelled with their own
    keys only. Keys that a JavaScript object literal inherits from \<open>Object.prototype\<close>
    (\<open>constructor\<close>, \<open>toString\<close>, \<open>__proto__\<close>, ...) are outside the model.
  \<^item> \<open>Metadata\<close> is the type variable \<open>'m\<close>. JavaScript tests such a value for truthiness
    in two places; the test is the parameter \<open>truthy\<close>.
  \<^item> The event listeners and subscribers of the router play no part in resolution and are
    left out of the state.
\<close>

subsection \<open>String primitives of JavaScript and Go\<close>

text \<open>\<open>String.prototype.startsWith\<close> and \<open>endsWith\<close>; Go's \<open>strings.HasPrefix\<close> and
  \<open>strings.HasSuffix\<close> are the same functions.\<close>

definition startsWith :: "string \<Rightarrow> string \<Rightarrow> bool" where
  "startsWith s p = (take (length p) s = p)"

definition endsWith :: "string \<Rightarrow> string \<Rightarrow> bool" where
  "endsWith s p = (length p \<le> length s \<and> drop (length s - length p) s = p)"

text \<open>\<open>s.slice(1)\<close>, \<open>s.slice(1, -1)\<close> and \<open>s.slice(0, -1)\<close>: a negative end counts from the
  end of the string, and an end before the start gives the empty string.\<close>

definition slice_1 :: "string \<Rightarrow> string" where
  "slice_1 s = drop 1 s"

definition slice_1_m1 :: "string \<Rightarrow> string" where
  "slice_1_m1 s = take (length s - 1 - 1) (drop 1 s)"

definition slice_0_m1 :: "string \<Rightarrow> string" where
  "slice_0_m1 s = take (length s - 1) s"

text \<open>\<open>s.split("/")\<close> in JavaScript and \<open>strings.Split(s, "/")\<close> in Go, for a separator of
  one character: the result is never empty, and the empty string splits into one empty
  piece.\<close>

fun split :: "char \<Rightarrow> string \<Rightarrow> string list" where
  "split c [] = [[]]"
| "split c (x # xs) =
     (let r = split c xs in if x = c then [] # r else (x # hd r) # tl r)"


text \<open>\<open>path.split("/").filter(Boolean)\<close>: the non-empty pieces.\<close>

definition splitFilter :: "string \<Rightarrow> string list" where
  "splitFilter s = filter (\<lambda>p. p \<noteq> []) (split CHR ''/'' s)"

text \<open>Go's \<open>strings.Trim(s, "/")\<close>, \<open>strings.TrimPrefix\<close> and \<open>strings.TrimSuffix\<close>.\<close>

definition Trim :: "string \<Rightarrow> char \<Rightarrow> string" where
  "Trim s c = rev (dropWhile (\<lambda>x. x = c) (rev (dropWhile (\<lambda>x. x = c) s)))"

definition TrimPrefix :: "string \<Rightarrow> string \<Rightarrow> string" where
  "TrimPrefix s p = (if startsWith s p then drop (length p) s else s)"

definition TrimSuffix :: "string \<Rightarrow> string \<Rightarrow> string" where
  "TrimSuffix s p = (if endsWith s p then take (length s - length p) s else s)"


text \<open>Go's \<open>strings.Contains(v, ":")\<close> for a substring of one character.\<close>

definition Contains :: "string \<Rightarrow> char \<Rightarrow> bool" where
  "Contains v c = (c \<in> set v)"

subsection \<open>The client: data model\<close>

text \<open>A parameter value handed to a factory is a string or \<open>undefined\<close>; a parameter object
  is a map from names to such values.\<close>

datatype jsval = Undefined | Str string

type_synonym params = "string \<rightharpoonup> jsval"

record 'm route =
  ref :: nat
  path :: string
  factory :: "params \<Rightarrow> 'm"

text \<open>\<open>RouteTree\<close>: \<open>node\<close> is the terminal route or \<open>null\<close>, \<open>static\<close> the object of literal
  edges (keys in insertion order), \<open>dynamic\<close> the single parameter edge
  \<open>{key, optional, value}\<close> or \<open>null\<close>.\<close>

datatype 'm RouteTree =
  RouteTree (node: "'m route option")
            (static: "(string \<times> 'm RouteTree) list")
            (dynamic: "(string \<times> bool \<times> 'm RouteTree) option")

datatype error =
    NoRoutes
  | FirstRouteNotRoot
  | ConflictingDynamicSegments string string
  | ConflictingRoutes string
  | RouteNotRegistered
  | MissingRequiredParameter string string
  | NoRouteFound string
  | TypeError

text \<open>The fields of a \<open>Router\<close> that resolution reads and writes: the trie, the set of
  registered route objects (by identity) and the metadata cache.\<close>

record 'm router =
  tree :: "'m RouteTree"
  cache :: "nat set"
  metadataCache :: "string \<rightharpoonup> 'm"

subsection \<open>The client: building the trie\<close>

definition emptyTree :: "'m RouteTree" where
  "emptyTree = RouteTree None [] None"

text \<open>\<open>addRouteToTree\<close> walks \<open>current\<close> down the tree and mutates the nodes it visits. Each
  node is referenced from its parent only, so the mutation is the rebuilding of the
  visited spine; a \<open>throw\<close> abandons the construction.\<close>

fun addParts :: "'m route \<Rightarrow> string list \<Rightarrow> 'm RouteTree \<Rightarrow> error + 'm RouteTree" where
  "addParts route [] current =
     (case node current of
        Some r \<Rightarrow>
          if ref r \<noteq> ref route then Inl (ConflictingRoutes (path route))
          else Inr (RouteTree (Some route) (static current) (dynamic current))
      | None \<Rightarrow> Inr (RouteTree (Some route) (static current) (dynamic current)))"
| "addParts route (part # parts) current =
     (let isOptional = endsWith part ''?'';
          isDynamic = startsWith part '':''
      in if isDynamic then
           (let key = (if isOptional then slice_0_m1 part else part)
            in case (case dynamic current of
                       Some (existingKey, opt, v) \<Rightarrow>
                         if existingKey \<noteq> key
                         then Inl (ConflictingDynamicSegments existingKey key)
                         else Inr (existingKey, opt, v)
                     | None \<Rightarrow> Inr (key, isOptional, emptyTree)) of
                 Inl e \<Rightarrow> Inl e
               | Inr (k, opt, v) \<Rightarrow>
                   (let node' = (if isOptional \<and> node current = None then Some route
                                 else node current)
                    in case addParts route parts v of
                         Inl e \<Rightarrow> Inl e
                       | Inr v' \<Rightarrow> Inr (RouteTree node' (static current) (Some (k, opt, v')))))
         else
           (let child = (case map_of (static current) part of
                           None \<Rightarrow> emptyTree
                         | Some c \<Rightarrow> c)
            in case addParts route parts child of
                 Inl e \<Rightarrow> Inl e
               | Inr child' \<Rightarrow>
                   Inr (RouteTree (node current)
                          (AList.update part child' (static current))
                          (dynamic current))))"

definition addRouteToTree :: "'m route \<Rightarrow> 'm RouteTree \<Rightarrow> error + 'm RouteTree" where
  "addRouteToTree route t = addParts route (splitFilter (path route)) t"

text \<open>The loop \<open>for (const route of routes.slice(1)) this.addRouteToTree(route)\<close>.\<close>

fun addRoutes :: "'m route list \<Rightarrow> 'm RouteTree \<Rightarrow> error + 'm RouteTree" where
  "addRoutes [] t = Inr t"
| "addRoutes (route # routes) t =
     (case addRouteToTree route t of
        Inl e \<Rightarrow> Inl e
      | Inr t' \<Rightarrow> addRoutes routes t')"

text \<open>The constructor.\<close>

definition Router :: "'m route list \<Rightarrow> error + 'm router" where
  "Router routes =
     (case routes of
        [] \<Rightarrow> Inl NoRoutes
      | firstRoute # rest \<Rightarrow>
          if path firstRoute \<noteq> ''/'' then Inl FirstRouteNotRoot
          else (case addRoutes rest (RouteTree (Some firstRoute) [] None) of
                  Inl e \<Rightarrow> Inl e
                | Inr t \<Rightarrow>
                    Inr \<lparr>tree = t, cache = ref ` set routes, metadataCache = Map.empty\<rparr>))"

subsection \<open>The client: lookup\<close>

text \<open>The loop of \<open>find\<close> over the pieces of the pathname: the literal edge if there is
  one, else the parameter edge if there is one, else \<open>return null\<close>.\<close>

fun walk :: "'m RouteTree \<Rightarrow> string list \<Rightarrow> 'm RouteTree option" where
  "walk current [] = Some current"
| "walk current (segment # segments) =
     (case map_of (static current) segment of
        Some child \<Rightarrow> walk child segments
      | None \<Rightarrow>
          (case dynamic current of
             Some (k, opt, v) \<Rightarrow> walk v segments
           | None \<Rightarrow> None))"

text \<open>\<open>findParams\<close>: the loop over the index \<open>i\<close> of the pattern's pieces; the pathname's
  piece at an index beyond its length is \<open>undefined\<close>.\<close>

definition at_index :: "string list \<Rightarrow> nat \<Rightarrow> jsval" where
  "at_index xs i = (if i < length xs then Str (xs ! i) else Undefined)"

fun findParamsFrom :: "string list \<Rightarrow> string list \<Rightarrow> nat \<Rightarrow> nat \<Rightarrow> params \<Rightarrow> params" where
  "findParamsFrom routePathSegments pathnameSegments i 0 ps = ps"
| "findParamsFrom routePathSegments pathnameSegments i (Suc n) ps =
     (let routeSegment = routePathSegments ! i;
          pathSegment = at_index pathnameSegments i
      in if startsWith routeSegment '':'' then
           (let isOptional = endsWith routeSegment ''?'';
                paramName = (if isOptional then slice_1_m1 routeSegment
                             else slice_1 routeSegment)
            in findParamsFrom routePathSegments pathnameSegments (Suc i) n
                 (ps(paramName \<mapsto> pathSegment)))
         else findParamsFrom routePathSegments pathnameSegments (Suc i) n ps)"

definition findParams :: "string \<Rightarrow> string \<Rightarrow> params" where
  "findParams routePath pathname =
     (let routePathSegments = splitFilter routePath;
          pathnameSegments = splitFilter pathname
      in findParamsFrom routePathSegments pathnameSegments 0
           (length routePathSegments) Map.empty)"

text \<open>\<open>find\<close> (here \<open>find_metadata\<close>) returns the metadata or \<open>null\<close> (\<open>None\<close>) together with the router after the
  call. \<open>this.tree.node!\<close> on a root without a terminal route (after \<open>cleanup\<close>) is a
  \<open>TypeError\<close>.\<close>

definition cacheHit :: "('m \<Rightarrow> bool) \<Rightarrow> 'm router \<Rightarrow> string \<Rightarrow> bool" where
  "cacheHit truthy r p = (case metadataCache r p of Some c \<Rightarrow> truthy c | None \<Rightarrow> False)"

definition find_metadata ::
  "('m \<Rightarrow> bool) \<Rightarrow> 'm router \<Rightarrow> string \<Rightarrow> error + ('m option \<times> 'm router)" where
  "find_metadata truthy r p =
     (if cacheHit truthy r p then Inr (metadataCache r p, r)
      else if p = ''/'' then
        (case node (tree r) of
           None \<Rightarrow> Inl TypeError
         | Some rt \<Rightarrow>
             (let metadata = factory rt Map.empty
              in Inr (Some metadata, r\<lparr>metadataCache := (metadataCache r)(p \<mapsto> metadata)\<rparr>)))
      else
        (let segments = split CHR ''/'' p;
             start = RouteTree None [('''', tree r)] None
         in case walk start segments of
              None \<Rightarrow> Inr (None, r)
            | Some current \<Rightarrow>
                (case node current of
                   None \<Rightarrow> Inr (None, r)
                 | Some rt \<Rightarrow>
                     (let ps = findParams (path rt) p;
                          metadata = factory rt ps
                      in Inr (Some metadata,
                              r\<lparr>metadataCache := (metadataCache r)(p \<mapsto> metadata)\<rparr>)))))"

text \<open>\<open>current\<close>, with the pathname that \<open>windowAPI.getPathname()\<close> returns as an argument:
  a \<open>null\<close> or falsy result of \<open>find\<close> is the error "No route found for pathname".\<close>

definition current ::
  "('m \<Rightarrow> bool) \<Rightarrow> 'm router \<Rightarrow> string \<Rightarrow> error + ('m \<times> 'm router)" where
  "current truthy r pathname =
     (case find_metadata truthy r pathname of
        Inl e \<Rightarrow> Inl e
      | Inr (None, r') \<Rightarrow> Inl (NoRouteFound pathname)
      | Inr (Some m, r') \<Rightarrow> if truthy m then Inr (m, r') else Inl (NoRouteFound pathname))"

text \<open>\<open>cleanup\<close>, without the listeners.\<close>

definition cleanup :: "'m router \<Rightarrow> 'm router" where
  "cleanup r = \<lparr>tree = RouteTree None [] None, cache = {}, metadataCache = Map.empty\<rparr>"

subsection \<open>The client: the URL builder\<close>





subsection \<open>The server: the linear matcher\<close>

record RpcSpec =
  Method :: string
  Params :: "(string \<times> string) list option"

record RouteSpec =
  Pattern :: string
  Rpcs :: "RpcSpec list"

definition SplitPath :: "string \<Rightarrow> string list" where
  "SplitPath p = (let p' = Trim p CHR ''/'' in if p' = [] then [] else split CHR ''/'' p')"

text \<open>The loop of \<open>MatchPattern\<close> over the pattern's pieces, with the index \<open>pi\<close> into the
  path's pieces and the map built so far; \<open>None\<close> is the return \<open>nil, false\<close>.\<close>

fun matchLoop ::
  "string list \<Rightarrow> string list \<Rightarrow> nat \<Rightarrow> (string \<rightharpoonup> string) \<Rightarrow> (string \<rightharpoonup> string) option" where
  "matchLoop [] pathParts pi ps = (if pi \<noteq> length pathParts then None else Some ps)"
| "matchLoop (pp # patternParts) pathParts pi ps =
     (if startsWith pp '':'' then
        (let paramName = TrimSuffix (TrimPrefix pp '':'') ''?'';
             optional = endsWith pp ''?''
         in if pi < length pathParts
            then matchLoop patternParts pathParts (pi + 1) (ps(paramName \<mapsto> pathParts ! pi))
            else if \<not> optional then None
            else matchLoop patternParts pathParts pi ps)
      else if pi \<ge> length pathParts \<or> pathParts ! pi \<noteq> pp then None
      else matchLoop patternParts pathParts (pi + 1) ps)"

definition MatchPattern :: "string \<Rightarrow> string \<Rightarrow> (string \<rightharpoonup> string) option" where
  "MatchPattern pattern p = matchLoop (SplitPath pattern) (SplitPath p) 0 Map.empty"

text \<open>\<open>MatchRoute\<close>: \<open>None\<close> is the return \<open>nil, nil\<close>.\<close>

fun MatchRoute :: "RouteSpec list \<Rightarrow> string \<Rightarrow> (RouteSpec \<times> (string \<rightharpoonup> string)) option" where
  "MatchRoute [] p = None"
| "MatchRoute (route # routes) p =
     (case MatchPattern (Pattern route) p of
        Some ps \<Rightarrow> Some (route, ps)
      | None \<Rightarrow> MatchRoute routes p)"

subsection \<open>The server: parameter substitution\<close>




subsection \<open>Vocabulary of the statements\<close>







subsection \<open>Addressing the nodes of the trie\<close>



text \<open>An edge of the trie is a literal edge with its key or the parameter edge; a list of
  edges addresses a node. \<open>terminalAt t es\<close> is the terminal route of the node at \<open>es\<close>, if
  the node exists and has one.\<close>

datatype edge = Lit string | Par


fun descendE :: "'m RouteTree \<Rightarrow> edge list \<Rightarrow> 'm RouteTree option" where
  "descendE t [] = Some t"
| "descendE t (Lit s # es) =
     (case map_of (static t) s of Some c \<Rightarrow> descendE c es | None \<Rightarrow> None)"
| "descendE t (Par # es) =
     (case dynamic t of Some (k, opt, v) \<Rightarrow> descendE v es | None \<Rightarrow> None)"

definition terminalAt :: "'m RouteTree \<Rightarrow> edge list \<Rightarrow> 'm route option" where
  "terminalAt t es = (case descendE t es of None \<Rightarrow> None | Some n \<Rightarrow> node n)"



text \<open>The edges that the loop of \<open>find\<close> takes for the pieces of a pathname (ending with
  an edge that does not exist when the loop returns \<open>null\<close>).\<close>

fun walkEdges :: "'m RouteTree \<Rightarrow> string list \<Rightarrow> edge list" where
  "walkEdges t [] = []"
| "walkEdges t (seg # segs) =
     (case map_of (static t) seg of
        Some c \<Rightarrow> Lit seg # walkEdges c segs
      | None \<Rightarrow>
          (case dynamic t of
             Some (k, opt, v) \<Rightarrow> Par # walkEdges v segs
           | None \<Rightarrow> [Lit seg]))"

subsection \<open>When the tie-break policies are not in play\<close>



subsection \<open>Lookup without the cache, and the loops in lockstep form\<close>



inductive reachable :: "('m \<Rightarrow> bool) \<Rightarrow> 'm route list \<Rightarrow> 'm router \<Rightarrow> bool"
  for truthy :: "'m \<Rightarrow> bool" and routes :: "'m route list" where
  built: "Router routes = Inr r \<Longrightarrow> reachable truthy routes r"
| looked_up: "reachable truthy routes r \<Longrightarrow> find_metadata truthy r p = Inr (m, r') \<Longrightarrow>
     reachable truthy routes r'"




subsection \<open>Paths and patterns on which the two matchers are compared\<close>





subsection \<open>Example routes and routers\<close>
















section \<open>Properties\<close>

lemmas string_defs = startsWith_def endsWith_def slice_1_def slice_1_m1_def slice_0_m1_def
  splitFilter_def Trim_def TrimPrefix_def TrimSuffix_def Contains_def

lemmas trie_defs = Router_def addRouteToTree_def emptyTree_def find_metadata_def cacheHit_def
  findParams_def at_index_def current_def

lemmas matcher_defs = MatchPattern_def SplitPath_def

subsection \<open>The linear matcher returns the first match\<close>

lemma MatchRoute_Some_iff:
  "MatchRoute routes p = Some (rt, ps) \<longleftrightarrow>
     (\<exists>i<length routes. routes ! i = rt \<and> MatchPattern (Pattern rt) p = Some ps \<and>
        (\<forall>j<i. MatchPattern (Pattern (routes ! j)) p = None))"
proof (induction routes)
  case Nil
  show ?case by simp
next
  case (Cons r rs)
  show ?case
  proof (cases "MatchPattern (Pattern r) p")
    case None
    have "(\<exists>i<length (r # rs). (r # rs) ! i = rt \<and> MatchPattern (Pattern rt) p = Some ps \<and>
             (\<forall>j<i. MatchPattern (Pattern ((r # rs) ! j)) p = None)) \<longleftrightarrow>
          (\<exists>i<length rs. rs ! i = rt \<and> MatchPattern (Pattern rt) p = Some ps \<and>
             (\<forall>j<i. MatchPattern (Pattern (rs ! j)) p = None))"
      using None by (auto simp: Ex_less_Suc2 All_less_Suc2)
    with None Cons.IH show ?thesis by simp
  next
    case (Some qs)
    have "(\<exists>i<length (r # rs). (r # rs) ! i = rt \<and> MatchPattern (Pattern rt) p = Some ps \<and>
             (\<forall>j<i. MatchPattern (Pattern ((r # rs) ! j)) p = None)) \<longleftrightarrow>
          (r = rt \<and> qs = ps)"
      using Some by (auto simp: Ex_less_Suc2 All_less_Suc2)
    with Some show ?thesis by auto
  qed
qed

text \<open>
  Claim C3. \<open>MatchRoute\<close> tries the patterns in the order of the list and returns the first
  one that \<open>MatchPattern\<close> accepts, with the parameters extracted for it: the pattern at
  some index \<open>i\<close> matches and none before \<open>i\<close> does. For the list
  \<open>["/users/:id", "/users/me"]\<close> and the path \<open>/users/me\<close> the result is the first
  pattern, \<open>/users/:id\<close>, with \<open>id = "me"\<close>, although the second pattern matches too.
\<close>

theorem C3_MatchRoute_first_in_list_order:
  "(MatchRoute routes p = Some (rt, ps) \<longleftrightarrow>
      (\<exists>i<length routes. routes ! i = rt \<and> MatchPattern (Pattern rt) p = Some ps \<and>
         (\<forall>j<i. MatchPattern (Pattern (routes ! j)) p = None)))
   \<and> MatchRoute [\<lparr>Pattern = ''/users/:id'', Rpcs = a\<rparr>, \<lparr>Pattern = ''/users/me'', Rpcs = b\<rparr>]
        ''/users/me''
      = Some (\<lparr>Pattern = ''/users/:id'', Rpcs = a\<rparr>, [''id'' \<mapsto> ''me''])
   \<and> MatchPattern ''/users/me'' ''/users/me'' = Some Map.empty"
proof (intro conjI)
  show "MatchRoute routes p = Some (rt, ps) \<longleftrightarrow>
      (\<exists>i<length routes. routes ! i = rt \<and> MatchPattern (Pattern rt) p = Some ps \<and>
         (\<forall>j<i. MatchPattern (Pattern (routes ! j)) p = None))"
    by (rule MatchRoute_Some_iff)
qed (simp_all add: matcher_defs string_defs)

theorem C3_MatchRoute_witness:
  "MatchRoute [\<lparr>Pattern = ''/a'', Rpcs = []\<rparr>, \<lparr>Pattern = ''/:x'', Rpcs = []\<rparr>] ''/b''
     = Some (\<lparr>Pattern = ''/:x'', Rpcs = []\<rparr>, [''x'' \<mapsto> ''b''])
   \<and> (\<exists>i<length [\<lparr>Pattern = ''/a'', Rpcs = []\<rparr>, \<lparr>Pattern = ''/:x'', Rpcs = []\<rparr>].
        [\<lparr>Pattern = ''/a'', Rpcs = []\<rparr>, \<lparr>Pattern = ''/:x'', Rpcs = []\<rparr>] ! i
          = \<lparr>Pattern = ''/:x'', Rpcs = []\<rparr> \<and>
        MatchPattern (Pattern \<lparr>Pattern = ''/:x'', Rpcs = []\<rparr>) ''/b'' = Some [''x'' \<mapsto> ''b''] \<and>
        (\<forall>j<i. MatchPattern
            (Pattern ([\<lparr>Pattern = ''/a'', Rpcs = []\<rparr>, \<lparr>Pattern = ''/:x'', Rpcs = []\<rparr>] ! j)) ''/b''
           = None))"
proof -
  have m: "MatchRoute [\<lparr>Pattern = ''/a'', Rpcs = []\<rparr>, \<lparr>Pattern = ''/:x'', Rpcs = []\<rparr>] ''/b''
     = Some (\<lparr>Pattern = ''/:x'', Rpcs = []\<rparr>, [''x'' \<mapsto> ''b''])"
    by (simp add: matcher_defs string_defs)
  from m C3_MatchRoute_first_in_list_order
         [of "[\<lparr>Pattern = ''/a'', Rpcs = []\<rparr>, \<lparr>Pattern = ''/:x'', Rpcs = []\<rparr>]" "''/b''"
             "\<lparr>Pattern = ''/:x'', Rpcs = []\<rparr>" "[''x'' \<mapsto> ''b'']", THEN conjunct1]
  show ?thesis by blast
qed

subsection \<open>Scenarios of the trie\<close>

text \<open>
  Claim C5. In the router built from the root route and a route with the pattern
  \<open>/posts/:id?\<close>, \<open>find("/posts")\<close> returns the factory's value for the parameters
  \<open>{id: undefined}\<close>, and \<open>find("/posts/7")\<close> its value for \<open>{id: "7"}\<close>.
\<close>

theorem C5_trailing_optional_parameter:
  assumes "path r0 = ''/''" and "path r1 = ''/posts/:id?''"
  shows "\<exists>r. Router [r0, r1] = Inr r \<and>
     (\<exists>r'. find_metadata truthy r ''/posts''
             = Inr (Some (factory r1 [''id'' \<mapsto> Undefined]), r')) \<and>
     (\<exists>r'. find_metadata truthy r ''/posts/7''
             = Inr (Some (factory r1 [''id'' \<mapsto> Str ''7'']), r'))"
  using assms by (simp add: trie_defs string_defs Let_def)

theorem C5_trailing_optional_parameter_witness:
  "\<exists>r. Router [\<lparr>ref = 0, path = ''/'', factory = (\<lambda>ps. ps ''id'')\<rparr>,
               \<lparr>ref = 1, path = ''/posts/:id?'', factory = (\<lambda>ps. ps ''id'')\<rparr>] = Inr r \<and>
     (\<exists>r'. find_metadata (\<lambda>m. True) r ''/posts'' = Inr (Some (Some Undefined), r')) \<and>
     (\<exists>r'. find_metadata (\<lambda>m. True) r ''/posts/7'' = Inr (Some (Some (Str ''7'')), r'))"
  using C5_trailing_optional_parameter
          [of "\<lparr>ref = 0, path = ''/'', factory = (\<lambda>ps. ps ''id'')\<rparr>"
              "\<lparr>ref = 1, path = ''/posts/:id?'', factory = (\<lambda>ps. ps ''id'')\<rparr>" "\<lambda>m. True"]
  by simp

text \<open>
  Claim C2 (as the code behaves). In the router built from the root route and a route
  with the pattern \<open>/users/:id\<close>, \<open>find("/users/42")\<close> returns the factory's value for
  \<open>{id: "42"}\<close> and \<open>find("/users")\<close> returns \<open>null\<close>; but \<open>find("/users/")\<close> does not
  fail: the empty last piece of the split pathname is consumed by the parameter edge,
  and the factory is called with \<open>{id: undefined}\<close>.
\<close>

theorem C2_required_parameter_trailing_slash:
  assumes "path r0 = ''/''" and "path r1 = ''/users/:id''"
  shows "\<exists>r. Router [r0, r1] = Inr r \<and>
     (\<exists>r'. find_metadata truthy r ''/users/42''
             = Inr (Some (factory r1 [''id'' \<mapsto> Str ''42'']), r')) \<and>
     find_metadata truthy r ''/users'' = Inr (None, r) \<and>
     current truthy r ''/users'' = Inl (NoRouteFound ''/users'') \<and>
     (\<exists>r'. find_metadata truthy r ''/users/''
             = Inr (Some (factory r1 [''id'' \<mapsto> Undefined]), r')) \<and>
     MatchPattern ''/users/:id'' ''/users/'' = None"
  using assms by (simp add: trie_defs string_defs matcher_defs Let_def)

theorem C2_required_parameter_trailing_slash_witness:
  "\<exists>r. Router [\<lparr>ref = 0, path = ''/'', factory = (\<lambda>ps. ps ''id'')\<rparr>,
               \<lparr>ref = 1, path = ''/users/:id'', factory = (\<lambda>ps. ps ''id'')\<rparr>] = Inr r \<and>
     (\<exists>r'. find_metadata (\<lambda>m. True) r ''/users/42'' = Inr (Some (Some (Str ''42'')), r')) \<and>
     find_metadata (\<lambda>m. True) r ''/users'' = Inr (None, r) \<and>
     (\<exists>r'. find_metadata (\<lambda>m. True) r ''/users/'' = Inr (Some (Some Undefined), r'))"
  using C2_required_parameter_trailing_slash
          [of "\<lparr>ref = 0, path = ''/'', factory = (\<lambda>ps. ps ''id'')\<rparr>"
              "\<lparr>ref = 1, path = ''/users/:id'', factory = (\<lambda>ps. ps ''id'')\<rparr>" "\<lambda>m. True"]
  by simp blast

text \<open>
  Claim C10. The walk of \<open>find\<close> takes the literal edge whenever the node has one for the
  piece, whatever the parameter edge is, and its result is then the result of the walk
  from that child: there is no return to the parameter edge. In the router built from
  \<open>/\<close>, \<open>/a/:x\<close> and \<open>/a/b/c\<close> (in either order of the last two), \<open>find("/a/b")\<close> returns
  \<open>null\<close> and \<open>current\<close> throws "No route found", although \<open>MatchPattern\<close> accepts
  \<open>/a/b\<close> for the pattern \<open>/a/:x\<close>.
\<close>

theorem C10_static_edge_is_committed:
  assumes "path r0 = ''/''" and "path r1 = ''/a/:x''" and "path r2 = ''/a/b/c''"
  shows "(map_of (static t) segment = Some child \<longrightarrow>
            walk t (segment # segments) = walk child segments) \<and>
     (\<exists>r. Router [r0, r1, r2] = Inr r \<and>
        find_metadata truthy r ''/a/b'' = Inr (None, r) \<and>
        current truthy r ''/a/b'' = Inl (NoRouteFound ''/a/b'')) \<and>
     (\<exists>r. Router [r0, r2, r1] = Inr r \<and>
        find_metadata truthy r ''/a/b'' = Inr (None, r) \<and>
        current truthy r ''/a/b'' = Inl (NoRouteFound ''/a/b'')) \<and>
     MatchPattern ''/a/:x'' ''/a/b'' = Some [''x'' \<mapsto> ''b'']"
  using assms by (simp add: trie_defs string_defs matcher_defs Let_def)

theorem C10_static_edge_is_committed_witness:
  "walk (RouteTree None [(''b'', RouteTree None [] None)]
           (Some ('':x'', False, RouteTree (Some \<lparr>ref = 1, path = ''/a/:x'', factory = (\<lambda>ps. ps ''x'')\<rparr>) [] None)))
        [''b'']
     = Some (RouteTree None [] None) \<and>
   (\<exists>r. Router [\<lparr>ref = 0, path = ''/'', factory = (\<lambda>ps. ps ''x'')\<rparr>,
                 \<lparr>ref = 1, path = ''/a/:x'', factory = (\<lambda>ps. ps ''x'')\<rparr>,
                 \<lparr>ref = 2, path = ''/a/b/c'', factory = (\<lambda>ps. ps ''x'')\<rparr>] = Inr r \<and>
        find_metadata (\<lambda>m. True) r ''/a/b'' = Inr (None, r))"
  using C10_static_edge_is_committed
          [of "\<lparr>ref = 0, path = ''/'', factory = (\<lambda>ps. ps ''x'')\<rparr>"
              "\<lparr>ref = 1, path = ''/a/:x'', factory = (\<lambda>ps. ps ''x'')\<rparr>"
              "\<lparr>ref = 2, path = ''/a/b/c'', factory = (\<lambda>ps. ps ''x'')\<rparr>"
              "RouteTree None [(''b'', RouteTree None [] None)]
                 (Some ('':x'', False, RouteTree (Some \<lparr>ref = 1, path = ''/a/:x'', factory = (\<lambda>ps. ps ''x'')\<rparr>) [] None))"
              "''b''" "RouteTree None [] None" "[]" "\<lambda>m. True"]
  by simp blast

subsection \<open>Failed lookups and the cache\<close>

text \<open>
  Claim C8. A lookup that fails leaves the router, and so the metadata cache, as it
  was. \<open>find\<close> returns \<open>null\<close> exactly on its two failing paths (the walk finds no edge,
  or the node reached has no terminal route), both of which return before
  \<open>metadataCache.set\<close>; \<open>current\<close> then throws "No route found". (A factory that
  returns a falsy value is a third way for \<open>current\<close> to throw; it is not one of the
  two failures of the claim, and \<open>find\<close> has then stored the value.)
\<close>

theorem C8_failed_lookup_keeps_cache:
  "(find_metadata truthy r p = Inr (None, r') \<longrightarrow>
      r' = r \<and> metadataCache r' = metadataCache r \<and>
      current truthy r p = Inl (NoRouteFound p)) \<and>
   (\<not> cacheHit truthy r p \<and> p \<noteq> ''/'' \<and>
    (case walk (RouteTree None [('''', tree r)] None) (split CHR ''/'' p) of
       None \<Rightarrow> True
     | Some n \<Rightarrow> node n = None) \<longrightarrow>
      find_metadata truthy r p = Inr (None, r))"
  by (auto simp: find_metadata_def current_def cacheHit_def Let_def
           split: if_splits option.splits)

theorem C8_failed_lookup_keeps_cache_witness:
  "find_metadata (\<lambda>m. True)
     \<lparr>tree = RouteTree (Some \<lparr>ref = 0, path = ''/'', factory = (\<lambda>ps. (1::nat))\<rparr>) [] None,
      cache = {0}, metadataCache = [''/'' \<mapsto> 1]\<rparr> ''/x''
     = Inr (None,
        \<lparr>tree = RouteTree (Some \<lparr>ref = 0, path = ''/'', factory = (\<lambda>ps. (1::nat))\<rparr>) [] None,
         cache = {0}, metadataCache = [''/'' \<mapsto> 1]\<rparr>) \<and>
   current (\<lambda>m. True)
     \<lparr>tree = RouteTree (Some \<lparr>ref = 0, path = ''/'', factory = (\<lambda>ps. (1::nat))\<rparr>) [] None,
      cache = {0}, metadataCache = [''/'' \<mapsto> 1]\<rparr> ''/x''
     = Inl (NoRouteFound ''/x'')"
proof -
  let ?r = "\<lparr>tree = RouteTree (Some \<lparr>ref = 0, path = ''/'', factory = (\<lambda>ps. (1::nat))\<rparr>) [] None,
      cache = {0}, metadataCache = [''/'' \<mapsto> 1]\<rparr>"
  have f: "find_metadata (\<lambda>m. True) ?r ''/x'' = Inr (None, ?r)"
    by (simp add: find_metadata_def cacheHit_def Let_def)
  from f C8_failed_lookup_keeps_cache [of "\<lambda>m. True" ?r "''/x''" ?r]
  show ?thesis by blast
qed

subsection \<open>The URL builder\<close>












subsection \<open>Parameter substitution\<close>







subsection \<open>What insertion does to the trie\<close>








subsection \<open>Lookups and the metadata cache\<close>






subsection \<open>Splitting and joining\<close>

lemma split_not_Nil [simp]: "split c s \<noteq> []"
  by (induction s) (auto simp: Let_def)








subsection \<open>Building a URL and resolving it\<close>















subsection \<open>The terminal route of a node is the first pattern that claims it\<close>


lemma terminalAt_Nil [simp]: "terminalAt t [] = node t"
  by (simp add: terminalAt_def)

lemma terminalAt_Lit:
  "terminalAt t (Lit s # es) =
     (case map_of (static t) s of Some c \<Rightarrow> terminalAt c es | None \<Rightarrow> None)"
  by (simp add: terminalAt_def split: option.splits)

lemma terminalAt_Par:
  "terminalAt t (Par # es) =
     (case dynamic t of Some (k, opt, v) \<Rightarrow> terminalAt v es | None \<Rightarrow> None)"
  by (simp add: terminalAt_def split: option.splits)

lemma terminalAt_emptyTree [simp]: "terminalAt emptyTree es = (None :: 'm route option)"
proof (cases es)
  case Nil
  then show ?thesis by (simp add: emptyTree_def)
next
  case (Cons e es')
  then show ?thesis
    by (cases e) (simp_all add: terminalAt_Lit terminalAt_Par emptyTree_def)
qed





subsection \<open>The trie and the linear matcher\<close>



lemma walkEdges_Nil_iff: "walkEdges t segs = [] \<longleftrightarrow> segs = []"
  by (cases segs) (auto split: option.splits)



















end
